theory Spec2Isabelle
  imports Main
begin

section \<open>Data of yamlLanguageService.ts\<close>

type_synonym uri = string
type_synonym pointer = "string list"

text \<open>
  A JavaScript promise that has settled: it resolved with a value or was rejected with a
  displayable message.
\<close>

datatype 'a promise = Resolved 'a | Rejected string

text \<open>
  Modelled from the spec: the type \<open>JSONSchema\<close> is imported from \<open>./jsonSchema\<close>, which is
  not among the sources. Section 3 calls a schema document "a tree of JSON-like values"; a
  reference keyword is kept as a node of its own, already split into the optional target URI
  and the pointer path (section 4.2), and \<open>JCircular\<close> is the circular-reference placeholder
  that only resolution produces.
\<close>

datatype JSONSchema =
    JNull
  | JBool bool
  | JNum int
  | JStr string
  | JArr "JSONSchema list"
  | JObj "(string \<times> JSONSchema) list"
  | JRef "uri option" pointer
  | JCircular uri pointer

text \<open>\<open>SchemaConfiguration\<close>, lines 55-69: \<open>fileMatch\<close> and \<open>schema\<close> are optional.\<close>

record SchemaConfiguration =
  uri :: uri
  fileMatch :: "string list option"
  schema :: "JSONSchema option"

text \<open>\<open>LanguageSettings\<close>, lines 29-42: every member is optional.\<close>

record LanguageSettings =
  validate :: "bool option"
  hover :: "bool option"
  completion :: "bool option"
  format :: "bool option"
  isKubernetes :: "bool option"
  schemas :: "SchemaConfiguration list option"
  customTags :: "string list option"
  indentation :: "string option"

text \<open>\<open>SchemaRequestService\<close>, lines 47-53: the fetch capability. The content is taken as
  already read into a schema tree; an error is a displayable string.\<close>

type_synonym SchemaRequestService = "uri \<Rightarrow> JSONSchema promise"

text \<open>\<open>WorkspaceContextService\<close>, lines 44-46: \<open>resolveRelativePath(relativePath, resource)\<close>.\<close>

type_synonym WorkspaceContextService = "string \<Rightarrow> string \<Rightarrow> string"

text \<open>
  Modelled from the spec: \<open>CustomSchemaProvider\<close> is declared in \<open>./services/yamlSchemaService\<close>,
  which is not among the sources. Section 3: a content-based provider function from a
  document identifier to a URI or nothing.
\<close>

type_synonym CustomSchemaProvider = "string \<Rightarrow> uri option"

subsection \<open>The member names of the service object\<close>

text \<open>The keys of the object literal that \<open>getLanguageService\<close> returns, lines 108-148, in
  the order written.\<close>

definition LanguageService_members :: "string list" where
  "LanguageService_members =
    [''configure'', ''registerCustomSchemaProvider'', ''findDefinition'', ''findLinks'',
     ''doComplete'', ''doValidation'', ''doHover'', ''findDocumentSymbols'',
     ''findDocumentSymbols2'', ''resetSchema'', ''doFormat'', ''addSchema'', ''deleteSchema'',
     ''modifySchemaContent'', ''deleteSchemaContent'']"

text \<open>The members the interface \<open>LanguageService\<close> declares, lines 79-95, in the order
  written.\<close>

definition LanguageService_interface :: "string list" where
  "LanguageService_interface =
    [''configure'', ''registerCustomSchemaProvider'', ''doComplete'', ''doValidation'',
     ''doHover'', ''findDocumentSymbols'', ''findDocumentSymbols2'', ''findDefinition'',
     ''findLinks'', ''resetSchema'', ''doFormat'', ''addSchema'', ''deleteSchema'',
     ''modifySchemaContent'', ''deleteSchemaContent'']"

text \<open>
  The operations that section 6 of the specification lists as the public operation surface
  (this definition follows the specification's words, to be compared with the two lists
  above), and the member each one names.
\<close>

datatype spec_operation =
    Op_configure
  | Op_registerCustomSchemaProvider
  | Op_complete
  | Op_validate
  | Op_hover
  | Op_findSymbols_flat
  | Op_findSymbols_hierarchical
  | Op_resetSchema
  | Op_addSchema
  | Op_deleteSchema
  | Op_modifySchemaContent
  | Op_deleteSchemaContent
  | Op_format

definition spec_operations :: "spec_operation list" where
  "spec_operations =
    [Op_configure, Op_registerCustomSchemaProvider, Op_complete, Op_validate, Op_hover,
     Op_findSymbols_flat, Op_findSymbols_hierarchical, Op_resetSchema, Op_addSchema,
     Op_deleteSchema, Op_modifySchemaContent, Op_deleteSchemaContent, Op_format]"

fun member_of :: "spec_operation \<Rightarrow> string" where
  "member_of Op_configure = ''configure''"
| "member_of Op_registerCustomSchemaProvider = ''registerCustomSchemaProvider''"
| "member_of Op_complete = ''doComplete''"
| "member_of Op_validate = ''doValidation''"
| "member_of Op_hover = ''doHover''"
| "member_of Op_findSymbols_flat = ''findDocumentSymbols''"
| "member_of Op_findSymbols_hierarchical = ''findDocumentSymbols2''"
| "member_of Op_resetSchema = ''resetSchema''"
| "member_of Op_addSchema = ''addSchema''"
| "member_of Op_deleteSchema = ''deleteSchema''"
| "member_of Op_modifySchemaContent = ''modifySchemaContent''"
| "member_of Op_deleteSchemaContent = ''deleteSchemaContent''"
| "member_of Op_format = ''doFormat''"

section \<open>The schema service\<close>

text \<open>
  Modelled from the spec: the class \<open>YAMLSchemaService\<close> (\<open>./services/yamlSchemaService\<close>) is
  not among the sources; only its constructor call and the eight methods that
  \<open>getLanguageService\<close> calls are visible. The state below is the Schema Store and the
  Schema Association Index of sections 2, 3 and 4.1: the fetch capability, the ordered
  associations registered from outside, the custom provider, the registry of raw schema
  documents keyed by URI, and the cache of resolved schemas keyed by URI.
\<close>

datatype resolution_note =
    SchemaUnavailable uri string
  | ReferenceNotFound uri pointer
  | CircularReference uri pointer

text \<open>
  Modelled from the spec (section 3, ResolvedSchema): the dereferenced graph, the notes of
  its resolution, and the URIs its resolution chain touched (section 4.1 invalidates "any
  cache entry whose resolution chain touched the changed URI").
\<close>

record ResolvedSchema =
  graph :: JSONSchema
  resolution_notes :: "resolution_note list"
  chain :: "uri list"

type_synonym SchemaAssociation = "uri \<times> string list option \<times> JSONSchema option"

record YAMLSchemaService =
  requestService :: SchemaRequestService
  contextService :: WorkspaceContextService
  externalSchemas :: "SchemaAssociation list"
  customSchemaProvider :: "CustomSchemaProvider option"
  schemasById :: "(uri \<times> JSONSchema) list"
  cachedResolutions :: "(uri \<times> ResolvedSchema) list"

definition new_YAMLSchemaService ::
    "SchemaRequestService \<Rightarrow> WorkspaceContextService \<Rightarrow> YAMLSchemaService" where
  "new_YAMLSchemaService rs wc =
    \<lparr>requestService = rs, contextService = wc, externalSchemas = [],
     customSchemaProvider = None, schemasById = [], cachedResolutions = []\<rparr>"

text \<open>
  Modelled from the spec (section 4.1): a change of the content behind \<open>u\<close> evicts every
  cache entry whose resolution chain touched \<open>u\<close> and no other.
\<close>

definition touches :: "uri \<Rightarrow> uri \<times> ResolvedSchema \<Rightarrow> bool" where
  "touches u e = (u = fst e \<or> u \<in> set (chain (snd e)))"

definition invalidate ::
    "uri \<Rightarrow> (uri \<times> ResolvedSchema) list \<Rightarrow> (uri \<times> ResolvedSchema) list" where
  "invalidate u cache = filter (\<lambda>e. \<not> touches u e) cache"

text \<open>
  Modelled from the spec: \<open>clearExternalSchemas\<close> and \<open>registerExternalSchema\<close> are methods of
  the absent class. The first forgets every association registered from outside (and the
  resolutions that touched one of them); the second appends the association
  \<open>(uri, fileMatch, schema)\<close> to the ordered list (section 3: "associations are ordered").
\<close>

definition clearExternalSchemas :: "YAMLSchemaService \<Rightarrow> YAMLSchemaService" where
  "clearExternalSchemas ss =
    ss\<lparr>externalSchemas := [],
       cachedResolutions := fold invalidate (map fst (externalSchemas ss)) (cachedResolutions ss)\<rparr>"

definition registerExternalSchema ::
    "uri \<Rightarrow> string list option \<Rightarrow> JSONSchema option \<Rightarrow> YAMLSchemaService \<Rightarrow> YAMLSchemaService"
    where
  "registerExternalSchema u filePatterns content ss =
    ss\<lparr>externalSchemas := externalSchemas ss @ [(u, filePatterns, content)],
       cachedResolutions := invalidate u (cachedResolutions ss)\<rparr>"

definition registerCustomSchemaProvider_ss ::
    "CustomSchemaProvider \<Rightarrow> YAMLSchemaService \<Rightarrow> YAMLSchemaService" where
  "registerCustomSchemaProvider_ss p ss = ss\<lparr>customSchemaProvider := Some p\<rparr>"

text \<open>
  Modelled from the spec: \<open>onResourceChange\<close> is the external resource-change notification of
  sections 3 and 5. It evicts the stored document of the URI and the cached resolutions
  whose chain touched it. The specification does not say what the boolean reports; the
  model answers whether anything was evicted.
\<close>

definition onResourceChange :: "uri \<Rightarrow> YAMLSchemaService \<Rightarrow> bool \<times> YAMLSchemaService" where
  "onResourceChange u ss =
    (list_ex (touches u) (cachedResolutions ss) \<or> u \<in> set (map fst (schemasById ss)),
     ss\<lparr>schemasById := filter (\<lambda>d. fst d \<noteq> u) (schemasById ss),
        cachedResolutions := invalidate u (cachedResolutions ss)\<rparr>)"

text \<open>
  Modelled from the spec (section 4.1): \<open>saveSchema\<close> is the explicit registration
  \<open>putInline(id, schemaContent)\<close> and \<open>deleteSchema\<close> the removal; both replace the document
  wholesale and invalidate the dependent resolutions.
\<close>

definition saveSchema :: "uri \<Rightarrow> JSONSchema \<Rightarrow> YAMLSchemaService \<Rightarrow> YAMLSchemaService" where
  "saveSchema schemaID content ss =
    ss\<lparr>schemasById := (schemaID, content) # filter (\<lambda>d. fst d \<noteq> schemaID) (schemasById ss),
       cachedResolutions := invalidate schemaID (cachedResolutions ss)\<rparr>"

definition deleteSchema_ss :: "uri \<Rightarrow> YAMLSchemaService \<Rightarrow> YAMLSchemaService" where
  "deleteSchema_ss schemaID ss =
    ss\<lparr>schemasById := filter (\<lambda>d. fst d \<noteq> schemaID) (schemasById ss),
       cachedResolutions := invalidate schemaID (cachedResolutions ss)\<rparr>"

text \<open>
  Modelled from the spec: the types \<open>SchemaAdditions\<close> and \<open>SchemaDeletions\<close> are declared in
  the absent file, and section 4.1 only names the edits \<open>patchContent(additions)\<close> and
  \<open>removeContent(deletions)\<close>. An addition names the schema, the path of the object to edit,
  the key and the new content; a deletion names the schema, the path and the key.
\<close>

record SchemaDeletions =
  edit_schema :: uri
  edit_path :: pointer
  edit_key :: string

record SchemaAdditions = SchemaDeletions +
  edit_content :: JSONSchema

fun modify_at :: "pointer \<Rightarrow> ((string \<times> JSONSchema) list \<Rightarrow> (string \<times> JSONSchema) list)
    \<Rightarrow> JSONSchema \<Rightarrow> JSONSchema" where
  "modify_at [] f (JObj kvs) = JObj (f kvs)"
| "modify_at (seg # segs) f (JObj kvs) =
    JObj (map (\<lambda>(k, v). if k = seg then (k, modify_at segs f v) else (k, v)) kvs)"
| "modify_at p f s = s"

definition put_key :: "string \<Rightarrow> JSONSchema \<Rightarrow> (string \<times> JSONSchema) list
    \<Rightarrow> (string \<times> JSONSchema) list" where
  "put_key k v kvs =
    (if k \<in> set (map fst kvs) then map (\<lambda>(k', v'). if k' = k then (k', v) else (k', v')) kvs
     else kvs @ [(k, v)])"

definition addContent :: "SchemaAdditions \<Rightarrow> YAMLSchemaService \<Rightarrow> YAMLSchemaService" where
  "addContent a ss =
    ss\<lparr>schemasById :=
         map (\<lambda>(u, d). if u = edit_schema a
                then (u, modify_at (edit_path a) (put_key (edit_key a) (edit_content a)) d)
                else (u, d))
           (schemasById ss),
       cachedResolutions := invalidate (edit_schema a) (cachedResolutions ss)\<rparr>"

definition deleteContent :: "SchemaDeletions \<Rightarrow> YAMLSchemaService \<Rightarrow> YAMLSchemaService" where
  "deleteContent d ss =
    ss\<lparr>schemasById :=
         map (\<lambda>(u, c). if u = edit_schema d
                then (u, modify_at (edit_path d) (filter (\<lambda>kv. fst kv \<noteq> edit_key d)) c)
                else (u, c))
           (schemasById ss),
       cachedResolutions := invalidate (edit_schema d) (cachedResolutions ss)\<rparr>"

section \<open>The language service\<close>

text \<open>
  Modelled from the spec: the producer classes \<open>YAMLCompletion\<close>, \<open>YAMLHover\<close>,
  \<open>YAMLValidation\<close> and \<open>YAMLFormatter\<close> are not among the sources. Of their state the
  service only sets the configuration, through their \<open>configure\<close> methods; each producer
  keeps the settings it was last given (section 6 lists the options), the completer also the
  custom tags passed beside them.
\<close>

record YAMLCompletion =
  completion_settings :: "LanguageSettings option"
  completion_customTags :: "string list"

record YAMLHover =
  hover_settings :: "LanguageSettings option"

record YAMLValidation =
  validation_settings :: "LanguageSettings option"

record YAMLFormatter =
  formatter_settings :: "LanguageSettings option"

definition YAMLCompletion_configure ::
    "LanguageSettings \<Rightarrow> string list \<Rightarrow> YAMLCompletion \<Rightarrow> YAMLCompletion" where
  "YAMLCompletion_configure settings tags c =
    c\<lparr>completion_settings := Some settings, completion_customTags := tags\<rparr>"

definition YAMLHover_configure :: "LanguageSettings \<Rightarrow> YAMLHover \<Rightarrow> YAMLHover" where
  "YAMLHover_configure settings h = h\<lparr>hover_settings := Some settings\<rparr>"

definition YAMLValidation_configure :: "LanguageSettings \<Rightarrow> YAMLValidation \<Rightarrow> YAMLValidation"
    where
  "YAMLValidation_configure settings v = v\<lparr>validation_settings := Some settings\<rparr>"

definition YAMLFormatter_configure :: "LanguageSettings \<Rightarrow> YAMLFormatter \<Rightarrow> YAMLFormatter" where
  "YAMLFormatter_configure settings f = f\<lparr>formatter_settings := Some settings\<rparr>"

text \<open>
  The objects that one call of \<open>getLanguageService\<close> creates, lines 101-106, and that the
  members of the returned object close over. The completer, the hover producer, the symbol
  producer and the validation producer are constructed with a reference to the one schema
  service; in the record they share the field \<open>schemaService\<close>. The symbol producer has no
  state but that reference.
\<close>

record LanguageService =
  schemaService :: YAMLSchemaService
  completer :: YAMLCompletion
  hover' :: YAMLHover
  yamlValidation :: YAMLValidation
  formatter :: YAMLFormatter

definition getLanguageService ::
    "SchemaRequestService \<Rightarrow> WorkspaceContextService \<Rightarrow> LanguageService" where
  "getLanguageService schemaRequestService workspaceContext =
    \<lparr>schemaService = new_YAMLSchemaService schemaRequestService workspaceContext,
     completer = \<lparr>completion_settings = None, completion_customTags = []\<rparr>,
     hover' = \<lparr>hover_settings = None\<rparr>,
     yamlValidation = \<lparr>validation_settings = None\<rparr>,
     formatter = \<lparr>formatter_settings = None\<rparr>\<rparr>"

text \<open>
  \<open>configure\<close>, lines 109-121. \<open>settings.schemas\<close> is tested for truthiness: an array, also
  an empty one, is truthy, an absent member is not. The same holds for
  \<open>settings['customTags']\<close> on line 118.
\<close>

definition configure :: "LanguageSettings \<Rightarrow> LanguageService \<Rightarrow> LanguageService" where
  "configure settings s =
    (let cleared = clearExternalSchemas (schemaService s);
         registered =
           (case schemas settings of
              None \<Rightarrow> cleared
            | Some cs \<Rightarrow>
                fold (\<lambda>c. registerExternalSchema (uri c) (fileMatch c) (schema c)) cs cleared);
         customTagsSetting = (case customTags settings of None \<Rightarrow> [] | Some tags \<Rightarrow> tags)
     in s\<lparr>schemaService := registered,
          yamlValidation := YAMLValidation_configure settings (yamlValidation s),
          hover' := YAMLHover_configure settings (hover' s),
          completer := YAMLCompletion_configure settings customTagsSetting (completer s),
          formatter := YAMLFormatter_configure settings (formatter s)\<rparr>)"

text \<open>\<open>registerCustomSchemaProvider\<close>, lines 122-124.\<close>

definition registerCustomSchemaProvider ::
    "CustomSchemaProvider \<Rightarrow> LanguageService \<Rightarrow> LanguageService" where
  "registerCustomSchemaProvider schemaProvider s =
    s\<lparr>schemaService := registerCustomSchemaProvider_ss schemaProvider (schemaService s)\<rparr>"

text \<open>
  \<open>findDefinition\<close>, line 125: an arrow function of no parameter that reads none of the
  captured objects. The interface (line 87) calls it with a document, a position and a parsed
  JSON document, whose types are the host's; the instance is passed and returned to show
  that it is neither read nor changed.
\<close>

definition findDefinition ::
    "'document \<Rightarrow> 'position \<Rightarrow> 'jsondocument \<Rightarrow> LanguageService
      \<Rightarrow> 'link list promise \<times> LanguageService" where
  "findDefinition document position doc s = (Resolved [], s)"

text \<open>\<open>resetSchema\<close>, lines 132-134: the result of \<open>onResourceChange\<close> is returned.\<close>

definition resetSchema :: "uri \<Rightarrow> LanguageService \<Rightarrow> bool \<times> LanguageService" where
  "resetSchema u s =
    (let (changed, ss) = onResourceChange u (schemaService s)
     in (changed, s\<lparr>schemaService := ss\<rparr>))"

text \<open>\<open>addSchema\<close>, \<open>deleteSchema\<close>, \<open>modifySchemaContent\<close>, \<open>deleteSchemaContent\<close>, lines
  136-147.\<close>

definition addSchema :: "uri \<Rightarrow> JSONSchema \<Rightarrow> LanguageService \<Rightarrow> LanguageService" where
  "addSchema schemaID content s = s\<lparr>schemaService := saveSchema schemaID content (schemaService s)\<rparr>"

definition deleteSchema :: "uri \<Rightarrow> LanguageService \<Rightarrow> LanguageService" where
  "deleteSchema schemaID s = s\<lparr>schemaService := deleteSchema_ss schemaID (schemaService s)\<rparr>"

definition modifySchemaContent :: "SchemaAdditions \<Rightarrow> LanguageService \<Rightarrow> LanguageService" where
  "modifySchemaContent schemaAdditions s =
    s\<lparr>schemaService := addContent schemaAdditions (schemaService s)\<rparr>"

definition deleteSchemaContent :: "SchemaDeletions \<Rightarrow> LanguageService \<Rightarrow> LanguageService" where
  "deleteSchemaContent schemaDeletions s =
    s\<lparr>schemaService := deleteContent schemaDeletions (schemaService s)\<rparr>"

section \<open>The reference resolver\<close>

text \<open>
  Modelled from the spec: the resolver is part of the absent schema service. Section 4.2:
  a reference is parsed into (targetURI, pointerPath), "targetURI defaults to the current
  document when absent", and resolution recurses "into the pointed sub-node". A pointer
  path is followed through the keys of objects and the decimal positions of arrays.
\<close>

definition digit_of :: "char \<Rightarrow> nat option" where
  "digit_of c =
    (let n = (of_char c :: nat) in if 48 \<le> n \<and> n < 58 then Some (n - 48) else None)"

fun index_from :: "nat \<Rightarrow> string \<Rightarrow> nat option" where
  "index_from a [] = Some a"
| "index_from a (c # cs) =
    (case digit_of c of None \<Rightarrow> None | Some d \<Rightarrow> index_from (10 * a + d) cs)"

definition index_of :: "string \<Rightarrow> nat option" where
  "index_of seg = (if seg = [] then None else index_from 0 seg)"

fun pointed :: "pointer \<Rightarrow> JSONSchema \<Rightarrow> JSONSchema option" where
  "pointed [] s = Some s"
| "pointed (seg # segs) (JObj kvs) =
    (case map_of kvs seg of None \<Rightarrow> None | Some v \<Rightarrow> pointed segs v)"
| "pointed (seg # segs) (JArr xs) =
    (case index_of seg of
       None \<Rightarrow> None
     | Some i \<Rightarrow> if i < length xs then pointed segs (xs ! i) else None)"
| "pointed (seg # segs) s = None"

text \<open>
  Modelled from the spec (sections 4.2 and 9): the memo table holds, per (URI, path), one
  of three states: no entry (unresolved), \<open>Resolving\<close> (on the call stack), or
  \<open>ResolvedTo\<close> the resolved node. The newest entry of a key is the first in the list.
\<close>

datatype memo_entry = Resolving | ResolvedTo JSONSchema

type_synonym memo = "((uri \<times> pointer) \<times> memo_entry) list"

text \<open>
  Modelled from the spec (section 4.2), step by step: a depth-first walk; at a reference,
  look the target up in the memo table; an entry marked resolving yields the placeholder
  and a note; a resolved entry is shared; otherwise the target is marked resolving, its
  document is fetched, the pointed node is resolved, and the entry is marked resolved. A
  document that cannot be fetched and a pointer that leads nowhere leave the reference in
  place, with its target URI written out, and add a note; the walk goes on with the
  siblings. The walk over the tree is by
  recursion on the tree; following a reference into its target is not, and takes one unit
  of the fuel \<open>n\<close>: the result \<open>None\<close> says that the fuel ran out.
\<close>

function (sequential)
  resolveRefs :: "nat \<Rightarrow> (uri \<Rightarrow> JSONSchema promise) \<Rightarrow> uri \<Rightarrow> memo \<Rightarrow> JSONSchema
    \<Rightarrow> (JSONSchema \<times> resolution_note list \<times> memo) option"
and resolveList :: "nat \<Rightarrow> (uri \<Rightarrow> JSONSchema promise) \<Rightarrow> uri \<Rightarrow> memo \<Rightarrow> JSONSchema list
    \<Rightarrow> (JSONSchema list \<times> resolution_note list \<times> memo) option"
and resolveProps :: "nat \<Rightarrow> (uri \<Rightarrow> JSONSchema promise) \<Rightarrow> uri \<Rightarrow> memo
    \<Rightarrow> (string \<times> JSONSchema) list
    \<Rightarrow> ((string \<times> JSONSchema) list \<times> resolution_note list \<times> memo) option"
where
  "resolveRefs n docs cur m (JArr xs) =
    (case resolveList n docs cur m xs of
       None \<Rightarrow> None
     | Some (ys, ns, m') \<Rightarrow> Some (JArr ys, ns, m'))"
| "resolveRefs n docs cur m (JObj kvs) =
    (case resolveProps n docs cur m kvs of
       None \<Rightarrow> None
     | Some (kvs', ns, m') \<Rightarrow> Some (JObj kvs', ns, m'))"
| "resolveRefs n docs cur m (JRef target p) =
    (let u = (case target of None \<Rightarrow> cur | Some t \<Rightarrow> t) in
     case map_of m (u, p) of
       Some Resolving \<Rightarrow> Some (JCircular u p, [CircularReference u p], m)
     | Some (ResolvedTo r) \<Rightarrow> Some (r, [], m)
     | None \<Rightarrow>
        (case docs u of
           Rejected msg \<Rightarrow> Some (JRef (Some u) p, [SchemaUnavailable u msg], m)
         | Resolved d \<Rightarrow>
            (case pointed p d of
               None \<Rightarrow> Some (JRef (Some u) p, [ReferenceNotFound u p], m)
             | Some t \<Rightarrow>
                (case n of
                   0 \<Rightarrow> None
                 | Suc k \<Rightarrow>
                    (case resolveRefs k docs u (((u, p), Resolving) # m) t of
                       None \<Rightarrow> None
                     | Some (r, ns, m') \<Rightarrow> Some (r, ns, ((u, p), ResolvedTo r) # m'))))))"
| "resolveRefs n docs cur m s = Some (s, [], m)"
| "resolveList n docs cur m [] = Some ([], [], m)"
| "resolveList n docs cur m (x # xs) =
    (case resolveRefs n docs cur m x of
       None \<Rightarrow> None
     | Some (y, ns, m1) \<Rightarrow>
        (case resolveList n docs cur m1 xs of
           None \<Rightarrow> None
         | Some (ys, ns', m2) \<Rightarrow> Some (y # ys, ns @ ns', m2)))"
| "resolveProps n docs cur m [] = Some ([], [], m)"
| "resolveProps n docs cur m ((k, v) # kvs) =
    (case resolveRefs n docs cur m v of
       None \<Rightarrow> None
     | Some (v', ns, m1) \<Rightarrow>
        (case resolveProps n docs cur m1 kvs of
           None \<Rightarrow> None
         | Some (kvs', ns', m2) \<Rightarrow> Some ((k, v') # kvs', ns @ ns', m2)))"
  by pat_completeness auto

termination
  by (relation "inv_image (less_than <*lex*> less_than)
        (\<lambda>x. case x of
           Inl (n, docs, cur, m, s) \<Rightarrow> (n, size s)
         | Inr (Inl (n, docs, cur, m, xs)) \<Rightarrow> (n, size_list size xs)
         | Inr (Inr (n, docs, cur, m, kvs)) \<Rightarrow> (n, size_list (size_prod (\<lambda>k. 0) size) kvs))")
     auto

fun note_uri :: "resolution_note \<Rightarrow> uri" where
  "note_uri (SchemaUnavailable u msg) = u"
| "note_uri (ReferenceNotFound u p) = u"
| "note_uri (CircularReference u p) = u"

text \<open>
  Modelled from the spec (section 4.2): \<open>resolve(SchemaDocument, store)\<close>. The document is
  the content \<open>d\<close> with its source URI \<open>u\<close>; the store is the function \<open>docs\<close>, in which the
  document stands for its own URI. The root is on the call stack from the start. The chain
  lists the URIs that the resolution touched.
\<close>

definition resolve ::
    "nat \<Rightarrow> (uri \<Rightarrow> JSONSchema promise) \<Rightarrow> uri \<Rightarrow> JSONSchema \<Rightarrow> ResolvedSchema option" where
  "resolve n docs u d =
    (case resolveRefs n (docs(u := Resolved d)) u [((u, []), Resolving)] d of
       None \<Rightarrow> None
     | Some (g, ns, m) \<Rightarrow>
         Some \<lparr>graph = g, resolution_notes = ns,
               chain = remdups (map (fst \<circ> fst) m @ map note_uri ns)\<rparr>)"













text \<open>
  Modelled from the spec (section 4.1 and the comment on \<open>SchemaConfiguration.schema\<close>,
  lines 64-67 of the source): the document of a URI is the one registered in the store,
  else the inline schema of an association for that URI, else what the fetch capability
  delivers.
\<close>

definition resolveURI :: "YAMLSchemaService \<Rightarrow> uri \<Rightarrow> JSONSchema promise" where
  "resolveURI ss u =
    (case map_of (schemasById ss) u of
       Some d \<Rightarrow> Resolved d
     | None \<Rightarrow>
        (case List.find (\<lambda>a. fst a = u \<and> snd (snd a) \<noteq> None) (externalSchemas ss) of
           Some (u', filePatterns, Some d) \<Rightarrow> Resolved d
         | _ \<Rightarrow> requestService ss u))"

text \<open>
  Modelled from the spec (section 3, lifecycle): a resolved schema is "created lazily on
  first match request and cached" under its URI. A root document that cannot be fetched
  gives a schema that holds only the note, and is not cached.
\<close>

definition getResolvedSchema ::
    "nat \<Rightarrow> uri \<Rightarrow> YAMLSchemaService \<Rightarrow> (ResolvedSchema \<times> YAMLSchemaService) option" where
  "getResolvedSchema n u ss =
    (case map_of (cachedResolutions ss) u of
       Some r \<Rightarrow> Some (r, ss)
     | None \<Rightarrow>
        (case resolveURI ss u of
           Rejected msg \<Rightarrow>
             Some (\<lparr>graph = JRef (Some u) [], resolution_notes = [SchemaUnavailable u msg],
                    chain = [u]\<rparr>, ss)
         | Resolved d \<Rightarrow>
            (case resolve n (resolveURI ss) u d of
               None \<Rightarrow> None
             | Some r \<Rightarrow> Some (r, ss\<lparr>cachedResolutions := (u, r) # cachedResolutions ss\<rparr>))))"

text \<open>
  An example: a fetch capability that delivers three documents, of which \<open>a\<close> and \<open>b\<close> refer
  to each other and \<open>c\<close> refers to nothing, and a schema service that has resolved \<open>a\<close> and
  then \<open>c\<close>.
\<close>

definition example_fetch :: SchemaRequestService where
  "example_fetch =
    (\<lambda>u. if u = ''a'' then Resolved (JObj [(''x'', JRef (Some ''b'') [])])
         else if u = ''b'' then Resolved (JObj [(''y'', JRef (Some ''a'') [])])
         else if u = ''c'' then Resolved (JObj [(''type'', JStr ''string'')])
         else Rejected ''unavailable'')"

definition example_service :: YAMLSchemaService where
  "example_service =
    (case getResolvedSchema 1 ''a'' (new_YAMLSchemaService example_fetch (\<lambda>p r. p)) of
       None \<Rightarrow> new_YAMLSchemaService example_fetch (\<lambda>p r. p)
     | Some (ra, ss) \<Rightarrow>
        (case getResolvedSchema 1 ''c'' ss of None \<Rightarrow> ss | Some (rc, ss') \<Rightarrow> ss'))"


section \<open>The matching engine\<close>





































section \<open>Properties of the service object\<close>

lemma externalSchemas_fold_register:
  "externalSchemas (fold (\<lambda>c. registerExternalSchema (uri c) (fileMatch c) (schema c)) cs ss) =
     externalSchemas ss @ map (\<lambda>c. (uri c, fileMatch c, schema c)) cs"
  by (induction cs arbitrary: ss) (simp_all add: registerExternalSchema_def)

text \<open>
  C1 (as amended). Every operation that the specification lists has its member in the object
  that \<open>getLanguageService\<close> returns, no two operations share a member, and the members that
  are none of the listed operations are exactly \<open>findDefinition\<close> and \<open>findLinks\<close>. The
  object and the interface declare the same members.
\<close>

theorem LanguageService_members_surface:
  "list_all (\<lambda>m. m \<in> set LanguageService_members) (map member_of spec_operations) \<and>
   filter (\<lambda>m. m \<notin> set (map member_of spec_operations)) LanguageService_members =
     [''findDefinition'', ''findLinks''] \<and>
   distinct (map member_of spec_operations) \<and>
   list_all (\<lambda>m. m \<in> set LanguageService_members) LanguageService_interface \<and>
   list_all (\<lambda>m. m \<in> set LanguageService_interface) LanguageService_members"
  by (simp add: LanguageService_members_def LanguageService_interface_def spec_operations_def)

text \<open>
  C1 as stated fails: \<open>findLinks\<close> is a member of the returned object and is the member of
  none of the operations that the specification lists.
\<close>

theorem LanguageService_members_counterexample:
  "''findLinks'' \<in> set LanguageService_members \<and>
   ''findLinks'' \<notin> set (map member_of spec_operations)"
  by (simp add: LanguageService_members_def spec_operations_def)

text \<open>
  C9. \<open>findDefinition\<close> resolves to the empty list for every document, position and parsed
  document, whatever the state of the instance, and leaves the instance as it was.
\<close>

theorem findDefinition_empty:
  "findDefinition document position doc s = (Resolved [], s)"
  by (simp add: findDefinition_def)

text \<open>
  C10. After \<open>configure\<close> the external schema associations are the entries of
  \<open>settings.schemas\<close>, in order (none when the member is absent), whatever was registered
  before: two instances configured with the same settings hold the same associations.
\<close>

theorem configure_replaces_external_schemas:
  "externalSchemas (schemaService (configure settings s)) =
     (case schemas settings of
        None \<Rightarrow> []
      | Some cs \<Rightarrow> map (\<lambda>c. (uri c, fileMatch c, schema c)) cs) \<and>
   externalSchemas (schemaService (configure settings s)) =
     externalSchemas (schemaService (configure settings s'))"
  by (simp add: configure_def Let_def clearExternalSchemas_def externalSchemas_fold_register
      split: option.split)

section \<open>Properties of the reference resolver\<close>
























text \<open>
  C7. \<open>resetSchema(uri)\<close> runs the resource-change invalidation of the schema service for
  that URI and returns its boolean; nothing else of the instance changes. The cached
  resolutions that remain are, in their order, those whose key is not the URI and whose
  resolution chain never touched it.
\<close>

theorem resetSchema_invalidates_only_uri:
  "fst (resetSchema u s) = fst (onResourceChange u (schemaService s)) \<and>
   snd (resetSchema u s) = s\<lparr>schemaService := snd (onResourceChange u (schemaService s))\<rparr> \<and>
   cachedResolutions (schemaService (snd (resetSchema u s))) =
     filter (\<lambda>e. \<not> touches u e) (cachedResolutions (schemaService s)) \<and>
   (e \<in> set (cachedResolutions (schemaService (snd (resetSchema u s)))) \<longleftrightarrow>
      e \<in> set (cachedResolutions (schemaService s)) \<and> fst e \<noteq> u \<and> u \<notin> set (chain (snd e)))"
  by (auto simp: resetSchema_def onResourceChange_def invalidate_def touches_def
      split: prod.splits)

lemma example_service_cache:
  "cachedResolutions example_service =
    [(''c'', \<lparr>graph = JObj [(''type'', JStr ''string'')], resolution_notes = [],
             chain = [''c'']\<rparr>),
     (''a'', \<lparr>graph = JObj [(''x'', JObj [(''y'', JCircular ''a'' [])])],
             resolution_notes = [CircularReference ''a'' []], chain = [''b'', ''a'']\<rparr>)]"
  by (simp add: example_service_def getResolvedSchema_def resolveURI_def
      new_YAMLSchemaService_def example_fetch_def resolve_def Let_def)

theorem resetSchema_invalidates_only_uri_witness:
  "map fst (cachedResolutions example_service) = [''c'', ''a''] \<and>
   fst (resetSchema ''b''
     ((getLanguageService example_fetch (\<lambda>p r. p))\<lparr>schemaService := example_service\<rparr>)) \<and>
   cachedResolutions (schemaService (snd (resetSchema ''b''
     ((getLanguageService example_fetch (\<lambda>p r. p))\<lparr>schemaService := example_service\<rparr>)))) =
     [(''c'', \<lparr>graph = JObj [(''type'', JStr ''string'')], resolution_notes = [],
              chain = [''c'']\<rparr>)]"
proof -
  let ?s = "(getLanguageService example_fetch (\<lambda>p r. p))\<lparr>schemaService := example_service\<rparr>"
  have changed: "fst (onResourceChange ''b'' example_service)"
    by (simp add: onResourceChange_def example_service_cache touches_def)
  from resetSchema_invalidates_only_uri [of "''b''" ?s "(''a'', undefined)"]
  have res: "fst (resetSchema ''b'' ?s) = fst (onResourceChange ''b'' (schemaService ?s))"
    and rest: "cachedResolutions (schemaService (snd (resetSchema ''b'' ?s))) =
      filter (\<lambda>e. \<not> touches ''b'' e) (cachedResolutions (schemaService ?s))"
    by blast+
  from res changed have "fst (resetSchema ''b'' ?s)" by simp
  moreover from rest have "cachedResolutions (schemaService (snd (resetSchema ''b'' ?s))) =
     [(''c'', \<lparr>graph = JObj [(''type'', JStr ''string'')], resolution_notes = [],
              chain = [''c'']\<rparr>)]"
    by (simp add: example_service_cache touches_def)
  moreover have "map fst (cachedResolutions example_service) = [''c'', ''a'']"
    by (simp add: example_service_cache)
  ultimately show ?thesis by blast
qed

section \<open>Properties of the matching engine\<close>










end
